theory Spec2Isabelle
  imports Main "HOL-Library.Sublist" "HOL-Library.List_Lexorder" "HOL-Library.Char_ord"
begin

section \<open>Strings and bytes\<close>

text \<open>
  A Python \<open>str\<close> is represented by its UTF-8 encoding, a \<open>string\<close> (list of bytes), and
  a Python \<open>bytes\<close> value by its bytes. Concatenation, formatting, the substring test
  and splitting at \<open>/\<close> act on the encoding as they act on the code points;
  \<open>encode('utf-8')\<close> is the identity and \<open>decode()\<close> is the identity on the byte
  strings that are valid UTF-8 and raises on all others.
\<close>

definition byte :: "char \<Rightarrow> nat" where
  "byte c = of_char c"

definition NL :: string where
  "NL = [CHR 0x0A]"

definition startswith :: "string \<Rightarrow> string \<Rightarrow> bool" where
  "startswith s p = (take (length p) s = p)"

definition endswith :: "string \<Rightarrow> string \<Rightarrow> bool" where
  "endswith s p = (length p \<le> length s \<and> drop (length s - length p) s = p)"

text \<open>\<open>sub in s\<close>: the substring test.\<close>

fun str_contains :: "string \<Rightarrow> string \<Rightarrow> bool" where
  "str_contains sub [] = (sub = [])"
| "str_contains sub (c # cs) = (startswith (c # cs) sub \<or> str_contains sub cs)"

text \<open>\<open>sep.join(xs)\<close>.\<close>

fun str_join :: "string \<Rightarrow> string list \<Rightarrow> string" where
  "str_join sep [] = []"
| "str_join sep [x] = x"
| "str_join sep (x # y # ys) = x @ sep @ str_join sep (y # ys)"

text \<open>\<open>s.split(c)\<close> for a one-character separator: never an empty list.\<close>

fun split_on :: "char \<Rightarrow> string \<Rightarrow> string list" where
  "split_on c [] = [[]]"
| "split_on c (x # xs) =
     (if x = c then [] # split_on c xs
      else (case split_on c xs of w # ws \<Rightarrow> (x # w) # ws | [] \<Rightarrow> [[x]]))"

text \<open>
  \<open>s.split()\<close> splits at runs of whitespace, the characters with \<open>str.isspace()\<close>:
  U+0009..U+000D, U+001C..U+0020, U+0085, U+00A0, U+1680, U+2000..U+200A, U+2028, U+2029,
  U+202F, U+205F and U+3000. \<open>ws_len s\<close> is the length of the encoding of a whitespace
  character at the head of \<open>s\<close>, and 0 when there is none.
\<close>

definition is_ws1 :: "char \<Rightarrow> bool" where
  "is_ws1 c = ((9 \<le> byte c \<and> byte c \<le> 13) \<or> (28 \<le> byte c \<and> byte c \<le> 32))"

definition is_ws2 :: "char \<Rightarrow> char \<Rightarrow> bool" where
  "is_ws2 a b = (byte a = 0xC2 \<and> (byte b = 0x85 \<or> byte b = 0xA0))"

definition is_ws3 :: "char \<Rightarrow> char \<Rightarrow> char \<Rightarrow> bool" where
  "is_ws3 a b c =
     ((byte a = 0xE1 \<and> byte b = 0x9A \<and> byte c = 0x80) \<or>
      (byte a = 0xE2 \<and> byte b = 0x80 \<and>
         ((0x80 \<le> byte c \<and> byte c \<le> 0x8A) \<or> byte c = 0xA8 \<or> byte c = 0xA9 \<or> byte c = 0xAF)) \<or>
      (byte a = 0xE2 \<and> byte b = 0x81 \<and> byte c = 0x9F) \<or>
      (byte a = 0xE3 \<and> byte b = 0x80 \<and> byte c = 0x80))"

fun ws_len :: "string \<Rightarrow> nat" where
  "ws_len [] = 0"
| "ws_len [a] = (if is_ws1 a then 1 else 0)"
| "ws_len [a, b] = (if is_ws1 a then 1 else if is_ws2 a b then 2 else 0)"
| "ws_len (a # b # c # r) =
     (if is_ws1 a then 1 else if is_ws2 a b then 2 else if is_ws3 a b c then 3 else 0)"

text \<open>
  The scan of \<open>split()\<close>: \<open>cur\<close> is the token being read. The recursion is on the number
  of bytes still to read (\<open>n\<close> bytes of a whitespace character are skipped one by one).
\<close>

fun split_scan :: "nat \<Rightarrow> string \<Rightarrow> string \<Rightarrow> string list" where
  "split_scan skip cur [] = (if cur = [] then [] else [cur])"
| "split_scan (Suc k) cur (c # cs) = split_scan k cur cs"
| "split_scan 0 cur (c # cs) =
     (case ws_len (c # cs) of
        0 \<Rightarrow> split_scan 0 (cur @ [c]) cs
      | Suc k \<Rightarrow> (if cur = [] then [] else [cur]) @ split_scan k [] cs)"

definition py_split :: "string \<Rightarrow> string list" where
  "py_split s = split_scan 0 [] s"

text \<open>\<open>str(n)\<close> for an integer.\<close>

fun digits :: "nat \<Rightarrow> string" where
  "digits n =
     (if n < 10 then [''0123456789'' ! n] else digits (n div 10) @ [''0123456789'' ! (n mod 10)])"

declare digits.simps [simp del]

definition str_of_int :: "int \<Rightarrow> string" where
  "str_of_int i = (if i < 0 then CHR ''-'' # digits (nat (- i)) else digits (nat i))"

text \<open>
  \<open>repr(b)\<close> of a bytes value, as \<open>"{}".format(b)\<close> prints it: \<open>b'...'\<close>, in double
  quotes when the bytes hold a single quote and no double quote, with the quote and the
  backslash escaped, tab, newline and carriage return as \<open>\t\<close>, \<open>\n\<close>, \<open>\r\<close> and
  every other byte outside 0x20..0x7E as \<open>\xhh\<close>.
\<close>

definition hexdigit :: "nat \<Rightarrow> char" where
  "hexdigit n = ''0123456789abcdef'' ! n"

definition repr_byte :: "char \<Rightarrow> char \<Rightarrow> string" where
  "repr_byte quote c =
     (if c = quote \<or> c = CHR 0x5C then [CHR 0x5C, c]
      else if c = CHR 0x09 then [CHR 0x5C, CHR ''t'']
      else if c = CHR 0x0A then [CHR 0x5C, CHR ''n'']
      else if c = CHR 0x0D then [CHR 0x5C, CHR ''r'']
      else if byte c < 0x20 \<or> 0x7F \<le> byte c
        then [CHR 0x5C, CHR ''x'', hexdigit (byte c div 16), hexdigit (byte c mod 16)]
      else [c])"

definition bytes_repr :: "string \<Rightarrow> string" where
  "bytes_repr b =
     (let quote = (if CHR 0x27 \<in> set b \<and> CHR 0x22 \<notin> set b then CHR 0x22 else CHR 0x27)
      in CHR ''b'' # quote # concat (map (repr_byte quote) b) @ [quote])"

text \<open>
  \<open>b.decode()\<close>: strict UTF-8. A lead byte 0xC2..0xDF takes one continuation byte,
  0xE0..0xEF two and 0xF0..0xF4 three; overlong forms, surrogates and code points above
  U+10FFFF are refused. \<open>None\<close> is \<open>UnicodeDecodeError\<close>.
\<close>

definition cont :: "nat \<Rightarrow> bool" where
  "cont b = (0x80 \<le> b \<and> b \<le> 0xBF)"

fun utf8_valid :: "nat list \<Rightarrow> bool" where
  "utf8_valid [] = True"
| "utf8_valid (b # bs) =
     (if b < 0x80 then utf8_valid bs
      else if 0xC2 \<le> b \<and> b \<le> 0xDF then
        (case bs of c1 # r \<Rightarrow> cont c1 \<and> utf8_valid r | _ \<Rightarrow> False)
      else if 0xE0 \<le> b \<and> b \<le> 0xEF then
        (case bs of
           c1 # c2 # r \<Rightarrow>
             (if b = 0xE0 then 0xA0 \<le> c1 \<and> c1 \<le> 0xBF
              else if b = 0xED then 0x80 \<le> c1 \<and> c1 \<le> 0x9F
              else cont c1) \<and> cont c2 \<and> utf8_valid r
         | _ \<Rightarrow> False)
      else if 0xF0 \<le> b \<and> b \<le> 0xF4 then
        (case bs of
           c1 # c2 # c3 # r \<Rightarrow>
             (if b = 0xF0 then 0x90 \<le> c1 \<and> c1 \<le> 0xBF
              else if b = 0xF4 then 0x80 \<le> c1 \<and> c1 \<le> 0x8F
              else cont c1) \<and> cont c2 \<and> cont c3 \<and> utf8_valid r
         | _ \<Rightarrow> False)
      else False)"

definition decode :: "string \<Rightarrow> string option" where
  "decode b = (if utf8_valid (map byte b) then Some b else None)"

text \<open>
  The characters of a \<open>str\<close>, as a \<open>for\<close> loop over it yields them: each lead byte with
  the continuation bytes that follow it.
\<close>

fun chars_of :: "string \<Rightarrow> string list" where
  "chars_of [] = []"
| "chars_of (c # cs) =
     (case chars_of cs of
        [] \<Rightarrow> [[c]]
      | w # ws \<Rightarrow> (if w \<noteq> [] \<and> cont (byte (hd w)) then (c # w) # ws else [c] # w # ws))"

section \<open>Paths: \<open>os.path\<close> and \<open>pathlib\<close> on POSIX\<close>

definition isabs :: "string \<Rightarrow> bool" where
  "isabs s = startswith s ''/''"

text \<open>\<open>os.path.join(a, b)\<close>.\<close>

definition os_path_join :: "string \<Rightarrow> string \<Rightarrow> string" where
  "os_path_join a b =
     (if startswith b ''/'' then b
      else if a = [] \<or> endswith a ''/'' then a @ b
      else a @ ''/'' @ b)"

text \<open>
  \<open>os.path.normpath\<close>: the loop over the components keeps a stack; \<open>..\<close> pops it, and is
  kept when the path is relative and the stack is empty or ends in \<open>..\<close>.
\<close>

fun norm_comps :: "bool \<Rightarrow> string list \<Rightarrow> string list \<Rightarrow> string list" where
  "norm_comps initial_slashes new_comps [] = new_comps"
| "norm_comps initial_slashes new_comps (c # comps) =
     (if c = [] \<or> c = ''.'' then norm_comps initial_slashes new_comps comps
      else if c \<noteq> ''..'' \<or> (\<not> initial_slashes \<and> new_comps = []) \<or>
              (new_comps \<noteq> [] \<and> last new_comps = ''..'')
        then norm_comps initial_slashes (new_comps @ [c]) comps
      else if new_comps \<noteq> [] then norm_comps initial_slashes (butlast new_comps) comps
      else norm_comps initial_slashes new_comps comps)"

definition normpath :: "string \<Rightarrow> string" where
  "normpath path =
     (if path = [] then ''.''
      else
        let initial_slashes =
              (if startswith path ''/'' then
                 (if startswith path ''//'' \<and> \<not> startswith path ''///'' then 2 else 1)
               else (0::nat));
            p = replicate initial_slashes CHR ''/'' @
                str_join ''/'' (norm_comps (initial_slashes \<noteq> 0) [] (split_on CHR ''/'' path))
        in if p = [] then ''.'' else p)"

text \<open>\<open>os.path.abspath(path)\<close>, with the current directory \<open>os.getcwd()\<close> as \<open>cwd\<close>.\<close>

definition abspath :: "string \<Rightarrow> string \<Rightarrow> string" where
  "abspath cwd path = normpath (if isabs path then path else os_path_join cwd path)"

text \<open>\<open>os.path.dirname(p)\<close>: up to the last slash, without trailing slashes unless it is all slashes.\<close>

fun rstrip_slash :: "string \<Rightarrow> string" where
  "rstrip_slash s = rev (dropWhile (\<lambda>c. c = CHR ''/'') (rev s))"

definition dirname :: "string \<Rightarrow> string" where
  "dirname p =
     (let head = rev (dropWhile (\<lambda>c. c \<noteq> CHR ''/'') (rev p))
      in if head \<noteq> [] \<and> head \<noteq> replicate (length head) CHR ''/'' then rstrip_slash head
         else head)"

text \<open>
  \<open>os.path.commonprefix(m)\<close>: the loop runs over the least string \<open>s1\<close> and reads the
  greatest \<open>s2\<close> at the same index; \<open>None\<close> is the \<open>IndexError\<close> of \<open>s2[i]\<close>.
\<close>

fun prefix_loop :: "string \<Rightarrow> string \<Rightarrow> string option" where
  "prefix_loop [] s2 = Some []"
| "prefix_loop (c # cs) [] = None"
| "prefix_loop (c # cs) (d # ds) =
     (if c \<noteq> d then Some [] else map_option (\<lambda>p. c # p) (prefix_loop cs ds))"

definition commonprefix :: "string list \<Rightarrow> string option" where
  "commonprefix m =
     (case m of [] \<Rightarrow> Some []
      | x # xs \<Rightarrow> prefix_loop (fold min xs x) (fold max xs x))"

text \<open>
  A \<open>pathlib.PurePosixPath\<close>: a root (\<open>''\<close>, \<open>/\<close> or \<open>//\<close>) and the components, from which
  the empty ones and \<open>.\<close> are dropped when the path is parsed; \<open>..\<close> is kept.
\<close>

datatype path = Path (root: string) (parts: "string list")

definition parse_path :: "string \<Rightarrow> path" where
  "parse_path s =
     Path (if startswith s ''//'' \<and> \<not> startswith s ''///'' then ''//''
           else if startswith s ''/'' then ''/'' else [])
          (filter (\<lambda>c. c \<noteq> [] \<and> c \<noteq> ''.'') (split_on CHR ''/'' s))"

fun path_str :: "path \<Rightarrow> string" where
  "path_str (Path r ps) = (if r = [] \<and> ps = [] then ''.'' else r @ str_join ''/'' ps)"

fun path_parent :: "path \<Rightarrow> path" where
  "path_parent (Path r ps) = Path r (butlast ps)"

fun path_join :: "path \<Rightarrow> path \<Rightarrow> path" where
  "path_join (Path r ps) (Path r' ps') = (if r' \<noteq> [] then Path r' ps' else Path r (ps @ ps'))"

section \<open>The program state and its surroundings\<close>

datatype Arch = AARCH64 | ARMV7L | ARMV7LHF

fun arch_value :: "Arch \<Rightarrow> string" where
  "arch_value AARCH64 = ''aarch64''"
| "arch_value ARMV7L = ''armv7l''"
| "arch_value ARMV7LHF = ''armv7lhf''"

text \<open>
  The command of a subprocess is a string or a list, as \<open>subprocess.run\<close> takes it and
  as \<open>CompletedProcess.args\<close> and \<open>CalledProcessError.cmd\<close> keep it. A word of a list is
  a string or a path object, as \<open>pathlib.Path(...)\<close> builds it; \<open>str(w)\<close> is \<open>word_str w\<close>.
\<close>

datatype word = Str string | PathWord path

fun word_str :: "word \<Rightarrow> string" where
  "word_str (Str w) = w"
| "word_str (PathWord p) = path_str p"

datatype args = ArgsString string | ArgsList "word list"

datatype shell_cmd = CmdString string | CmdList "word list"

text \<open>A dictionary of strings is an association list with distinct keys, in insertion order.\<close>

type_synonym env = "(string \<times> string) list"

text \<open>
  One call of \<open>subprocess.run\<close>: what is run and the keyword arguments the calls of this
  module pass. \<open>sr_env = None\<close> is \<open>env=None\<close>: the child inherits the environment of the
  calling process.
\<close>

record spawn_request =
  sr_args :: args
  sr_shell :: bool
  sr_cwd :: "string option"
  sr_env :: "env option"
  sr_timeout :: "nat option"
  sr_stdin_pipe :: bool

text \<open>\<open>subprocess.CompletedProcess\<close>; \<open>stdout\<close> and \<open>stderr\<close> hold bytes until they are decoded.\<close>

record completed_process =
  cp_args :: args
  returncode :: int
  stdout :: string
  stderr :: string

datatype level = DEBUG | INFO | WARNING | ERROR

datatype error =
    FileNotFoundError string
  | Exception string
  | CalledProcessError int args string string
  | UnicodeDecodeError
  | TimeoutExpired
  | OSError string
  | LoggerError

text \<open>
  How a call of \<open>subprocess.run\<close> ends: with an exception of \<open>subprocess.run\<close> itself
  (\<open>TimeoutExpired\<close>, the \<open>OSError\<close> of a missing executable), or with the exit code and
  the bytes of standard output and standard error.
\<close>

type_synonym outcome = "error + (int \<times> string \<times> string)"

text \<open>
  The state the module reads and changes: the working directory of the process, the
  directories that exist and can be entered, the files written by extraction (path and
  content, in the order written), the lines the logger has taken and the subprocesses
  started, each with how it ended, oldest first. An operation wrapped in
  \<open>working_directory\<close> is any function on this state: it may create and remove
  directories.
\<close>

record state =
  cwd :: string
  dirs :: "string list"
  files :: "(string \<times> string) list"
  log :: "(level \<times> string) list"
  spawned :: "(spawn_request \<times> outcome) list"

text \<open>
  What the module does not decide: \<open>os.environ\<close>, and how a subprocess ends, given the
  state and the request.
\<close>

record platform =
  environ :: env
  run_process :: "state \<Rightarrow> spawn_request \<Rightarrow> outcome"

text \<open>
  The logger is the caller's object. \<open>check_subprocess_output\<close> guards the call that emits
  the log entry of a subprocess against an exception of the logger, so the calls that log
  a subprocess can fail in the model: \<open>rejects lg lvl msg\<close> says that the logger raises
  on this line, for the entry and for the fallback lines alike. The progress lines of
  \<open>extract_and_install_toolchain\<close> (\<open>logger.info\<close>) are always taken.
\<close>

record logger =
  rejects :: "level \<Rightarrow> string \<Rightarrow> bool"

definition log_line :: "level \<Rightarrow> string \<Rightarrow> state \<Rightarrow> state" where
  "log_line lvl msg s = s\<lparr>log := log s @ [(lvl, msg)]\<rparr>"

definition log_entry :: "logger \<Rightarrow> level \<Rightarrow> string \<Rightarrow> state \<Rightarrow> (error + unit) \<times> state" where
  "log_entry lg lvl msg s =
     (if rejects lg lvl msg then (Inl LoggerError, s) else (Inr (), log_line lvl msg s))"

section \<open>\<open>working_directory\<close>\<close>

text \<open>
  \<open>os.chdir(p)\<close> raises when \<open>p\<close> does not name a directory that exists at the time of
  the call; \<open>os.getcwd()\<close> is the field \<open>cwd\<close>.
\<close>

definition os_chdir :: "string \<Rightarrow> state \<Rightarrow> (error + unit) \<times> state" where
  "os_chdir p s =
     (let t = abspath (cwd s) p
      in if t \<in> set (dirs s) then (Inr (), s\<lparr>cwd := t\<rparr>) else (Inl (OSError p), s))"

text \<open>
  \<open>with working_directory(target_directory) as d: body(d)\<close>. The generator runs to its
  \<open>yield\<close> on entry; the \<open>finally\<close> clause runs when \<open>os.chdir(target_directory)\<close> raises,
  when the body returns and when the body raises, and an exception of the \<open>finally\<close>
  clause replaces the outcome.
\<close>

definition working_directory ::
  "string \<Rightarrow> (string \<Rightarrow> state \<Rightarrow> (error + 'a) \<times> state) \<Rightarrow> state \<Rightarrow> (error + 'a) \<times> state" where
  "working_directory target_directory body s =
     (let current_directory = cwd s in
      case os_chdir target_directory s of
        (Inl e, s1) \<Rightarrow>
          (case os_chdir current_directory s1 of
             (Inl e', s2) \<Rightarrow> (Inl e', s2)
           | (Inr _, s2) \<Rightarrow> (Inl e, s2))
      | (Inr _, s1) \<Rightarrow>
          (case body target_directory s1 of
             (r, s2) \<Rightarrow>
               (case os_chdir current_directory s2 of
                  (Inl e', s3) \<Rightarrow> (Inl e', s3)
                | (Inr _, s3) \<Rightarrow> (r, s3))))"

section \<open>\<open>run_subprocess\<close> and \<open>check_subprocess_output\<close>\<close>

text \<open>
  \<open>" ".join([str(w) for w in args])\<close>: over the words of a list, or over the characters
  of a string. \<open>check_subprocess_output\<close> joins without \<open>str\<close>; the lists it gets from
  \<open>run_subprocess\<close> hold strings only.
\<close>

fun join_args :: "args \<Rightarrow> string" where
  "join_args (ArgsList ws) = str_join '' '' (map word_str ws)"
| "join_args (ArgsString s) = str_join '' '' (chars_of s)"

definition header :: "string \<Rightarrow> int \<Rightarrow> string" where
  "header cmd return_code = ''CMD <'' @ cmd @ ''> RETURNED <'' @ str_of_int return_code @ ''>.'' @ NL"

text \<open>
  The two lines of an \<open>except Exception\<close> branch: nothing guards them, so an exception of
  the logger on either leaves \<open>check_subprocess_output\<close>.
\<close>

definition fallback ::
  "logger \<Rightarrow> level \<Rightarrow> level \<Rightarrow> string \<Rightarrow> state \<Rightarrow> (error + unit) \<times> state" where
  "fallback lg lvl1 lvl2 log_message s =
     (case log_entry lg lvl1 ''An error occurred when trying to logging the output date'' s of
        (Inl e, s1) \<Rightarrow> (Inl e, s1)
      | (Inr _, s1) \<Rightarrow>
          log_entry lg lvl2 (''Encoded log message:'' @ NL @ bytes_repr log_message) s1)"

definition check_subprocess_output ::
  "logger \<Rightarrow> completed_process \<Rightarrow> state \<Rightarrow> (error + unit) \<times> state" where
  "check_subprocess_output lg subprocess_output s =
     (let cmd = join_args (cp_args subprocess_output);
          return_code = returncode subprocess_output
      in case decode (stdout subprocess_output) of
           None \<Rightarrow> (Inl UnicodeDecodeError, s)
         | Some subprocess_stdout \<Rightarrow>
       (case decode (stderr subprocess_output) of
           None \<Rightarrow> (Inl UnicodeDecodeError, s)
         | Some subprocess_stderr \<Rightarrow>
       (let m0 = header cmd return_code;
            m1 = (if subprocess_stdout \<noteq> []
                  then m0 @ (m0 @ ''STDOUT was:'' @ NL @ subprocess_stdout @ NL) else m0);
            log_message = (if subprocess_stderr \<noteq> []
                  then m1 @ (m1 @ ''STDERR was:'' @ NL @ subprocess_stderr @ NL) else m1)
        in if return_code = 0 then
             (case log_entry lg DEBUG log_message s of
                (Inr _, s') \<Rightarrow> (Inr (), s')
              | (Inl _, s') \<Rightarrow> fallback lg WARNING DEBUG log_message s')
           else
             (case (case log_entry lg ERROR
                           (''An error occurred when running a sub-process: '' @ log_message) s of
                      (Inr _, s') \<Rightarrow> (Inr (), s')
                    | (Inl _, s') \<Rightarrow> fallback lg ERROR ERROR log_message s') of
                (Inl e, s2) \<Rightarrow> (Inl e, s2)
              | (Inr _, s2) \<Rightarrow>
                  (Inl (CalledProcessError return_code (ArgsString cmd)
                          subprocess_stdout subprocess_stderr), s2)))))"

text \<open>
  \<open>run_subprocess\<close>: the environment of the child is a copy of \<open>os.environ\<close> in which each
  item of \<open>update_env\<close> is stored in turn.
\<close>

fun dict_set :: "string \<Rightarrow> string \<Rightarrow> env \<Rightarrow> env" where
  "dict_set k v [] = [(k, v)]"
| "dict_set k v ((k', v') # kvs) = (if k' = k then (k, v) # kvs else (k', v') # dict_set k v kvs)"

fun update_loop :: "env \<Rightarrow> env \<Rightarrow> env" where
  "update_loop current_env [] = current_env"
| "update_loop current_env ((key, val) # items) = update_loop (dict_set key val current_env) items"

text \<open>\<open>subprocess.run\<close>: the child runs to its end, and the call is recorded.\<close>

definition start_process :: "platform \<Rightarrow> spawn_request \<Rightarrow> state \<Rightarrow> outcome \<times> state" where
  "start_process pf req s =
     (run_process pf s req, s\<lparr>spawned := spawned s @ [(req, run_process pf s req)]\<rparr>)"

text \<open>
  The call of \<open>subprocess.run\<close> that \<open>run_subprocess\<close> makes: the command line as it
  is under \<open>shell=True\<close>, split at whitespace otherwise.
\<close>

definition subprocess_request ::
  "platform \<Rightarrow> string \<Rightarrow> string option \<Rightarrow> bool \<Rightarrow> env option \<Rightarrow> spawn_request" where
  "subprocess_request pf command_line cwd_arg shell update_env =
     (let update_env' = (case update_env of None \<Rightarrow> [] | Some u \<Rightarrow> u);
          current_env = update_loop (environ pf) update_env'
      in \<lparr>sr_args = (if shell then ArgsString command_line
                       else ArgsList (map Str (py_split command_line))),
           sr_shell = shell, sr_cwd = cwd_arg, sr_env = Some current_env,
           sr_timeout = None, sr_stdin_pipe = False\<rparr>)"

definition run_subprocess ::
  "platform \<Rightarrow> logger \<Rightarrow> string \<Rightarrow> bool \<Rightarrow> string option \<Rightarrow> bool \<Rightarrow> env option \<Rightarrow> state
     \<Rightarrow> (error + unit) \<times> state" where
  "run_subprocess pf lg command_line check_output cwd_arg shell update_env s =
     (let req = subprocess_request pf command_line cwd_arg shell update_env
      in case start_process pf req s of
           (Inl e, s1) \<Rightarrow> (Inl e, s1)
         | (Inr (rc, out, err), s1) \<Rightarrow>
             (if check_output
              then check_subprocess_output lg
                     \<lparr>cp_args = sr_args req, returncode = rc, stdout = out, stderr = err\<rparr> s1
              else (Inr (), s1)))"

section \<open>\<open>extract_and_install_toolchain\<close>\<close>

text \<open>
  A member of the opened archive, as \<open>tar_file.getmembers()\<close> lists it: the name stored in
  the archive and the content of a regular file. The archive is taken to open; its member
  list is the argument \<open>members\<close>.
\<close>

record tar_member =
  name :: string
  content :: string

definition is_within_directory :: "string \<Rightarrow> string \<Rightarrow> string \<Rightarrow> bool" where
  "is_within_directory wd directory target =
     (let abs_directory = abspath wd directory;
          abs_target = abspath wd target;
          prefix = commonprefix [abs_directory, abs_target]
      in prefix = Some abs_directory)"

text \<open>The loop of \<open>safe_extract\<close> over the members: it raises at the first one outside.\<close>

fun check_members :: "string \<Rightarrow> string \<Rightarrow> tar_member list \<Rightarrow> error + unit" where
  "check_members wd path [] = Inr ()"
| "check_members wd path (member # rest) =
     (let member_path = os_path_join path (name member)
      in if \<not> is_within_directory wd path member_path
         then Inl (Exception ''Attempted Path Traversal in Tar File'')
         else check_members wd path rest)"

text \<open>
  \<open>tar.extractall(path)\<close> writes every member at \<open>os.path.join(path, member.name)\<close>.
  Every member is a regular file here: link and directory members, and where a write
  lands when an earlier member has made part of its path a symbolic link, are outside this
  model. \<open>files\<close> holds the paths as they are handed to the file system.
\<close>

definition extractall :: "string \<Rightarrow> tar_member list \<Rightarrow> state \<Rightarrow> state" where
  "extractall path members s =
     s\<lparr>files := files s @ map (\<lambda>m. (os_path_join path (name m), content m)) members\<rparr>"

definition safe_extract :: "tar_member list \<Rightarrow> string \<Rightarrow> state \<Rightarrow> (error + unit) \<times> state" where
  "safe_extract members path s =
     (case check_members (cwd s) path members of
        Inl e \<Rightarrow> (Inl e, s)
      | Inr _ \<Rightarrow> (Inr (), extractall path members s))"

definition toolchain_installers :: "path \<Rightarrow> tar_member list \<Rightarrow> path list" where
  "toolchain_installers tar_path members =
     map (\<lambda>member. path_join (path_parent tar_path) (parse_path (name member)))
         (filter (\<lambda>member. str_contains ''.sh'' (name member)) members)"

definition installer_command :: "path \<Rightarrow> string \<Rightarrow> string" where
  "installer_command toolchain_installer dir_to_install_toolchain_in =
     path_str toolchain_installer @ '' -d '' @ dir_to_install_toolchain_in @ '' -y''"

text \<open>The loop over the installers: the first exception ends it.\<close>

fun install_loop ::
  "platform \<Rightarrow> logger \<Rightarrow> path list \<Rightarrow> string \<Rightarrow> state \<Rightarrow> (error + unit) \<times> state" where
  "install_loop pf lg [] dir_to_install_toolchain_in s = (Inr (), s)"
| "install_loop pf lg (toolchain_installer # rest) dir_to_install_toolchain_in s =
     (case run_subprocess pf lg
             (installer_command toolchain_installer dir_to_install_toolchain_in)
             True None False None
             (log_line INFO (''installing '' @ path_str toolchain_installer) s) of
        (Inl e, s1) \<Rightarrow> (Inl e, s1)
      | (Inr _, s1) \<Rightarrow> install_loop pf lg rest dir_to_install_toolchain_in s1)"

definition extract_and_install_toolchain ::
  "platform \<Rightarrow> logger \<Rightarrow> path \<Rightarrow> tar_member list \<Rightarrow> string \<Rightarrow> state \<Rightarrow> (error + unit) \<times> state" where
  "extract_and_install_toolchain pf lg tar_path members dir_to_install_toolchain_in s =
     (let s1 = log_line INFO ''extracting toolchain'' s;
          tar_dir = dirname (path_str tar_path);
          installers = toolchain_installers tar_path members
      in if length installers = 0
         then (Inl (FileNotFoundError ''No toolchain installer found''), s1)
         else
           (case safe_extract members tar_dir s1 of
              (Inl e, s2) \<Rightarrow> (Inl e, s2)
            | (Inr _, s2) \<Rightarrow>
                install_loop pf lg installers dir_to_install_toolchain_in
                  (log_line INFO ''installing toolchain'' s2)))"

section \<open>\<open>ShellRunner\<close>\<close>

text \<open>
  \<open>type(word) is Path\<close>: the class of the object is \<open>Path\<close> itself. \<open>Path(...)\<close> builds an
  object of the subclass \<open>PosixPath\<close>, so the test fails for every path object as it
  does for a string, and \<open>str(word)\<close> is never taken.
\<close>

fun type_is_Path :: "word \<Rightarrow> bool" where
  "type_is_Path (PathWord p) = False"
| "type_is_Path (Str w) = False"

definition convert_word :: "word \<Rightarrow> word" where
  "convert_word w = (if type_is_Path w then Str (word_str w) else w)"

definition convert_pathlib_instance_to_str :: "word list \<Rightarrow> word list" where
  "convert_pathlib_instance_to_str arr = map convert_word arr"

definition log_subprocess :: "logger \<Rightarrow> completed_process \<Rightarrow> state \<Rightarrow> (error + unit) \<times> state" where
  "log_subprocess lg subprocess_results s =
     (let out = stdout subprocess_results;
          err = stderr subprocess_results;
          return_code = returncode subprocess_results;
          cmd = join_args (cp_args subprocess_results);
          m0 = header cmd return_code;
          m1 = (if out \<noteq> [] then m0 @ ''STDOUT was:'' @ NL @ out @ NL else m0);
          log_message = (if err \<noteq> [] then m1 @ ''STDERR was:'' @ NL @ err @ NL else m1)
      in if return_code = 0 then log_entry lg DEBUG log_message s
         else log_entry lg ERROR (''An error occurred when running a sub-process: '' @ log_message) s)"

text \<open>
  \<open>ShellRunner.run\<close>: \<open>env\<close> goes to \<open>subprocess.run\<close> as it is given.
  \<open>p.check_returncode()\<close> raises \<open>CalledProcessError(returncode, args, stdout, stderr)\<close>
  on an exit code other than 0.
\<close>

definition convert_cmd :: "shell_cmd \<Rightarrow> args" where
  "convert_cmd shell_cmd =
     (case shell_cmd of
        CmdList arr \<Rightarrow> ArgsList (convert_pathlib_instance_to_str arr)
      | CmdString c \<Rightarrow> ArgsString c)"

text \<open>The call of \<open>subprocess.run\<close> that \<open>ShellRunner.run\<close> makes.\<close>

definition run_request ::
  "shell_cmd \<Rightarrow> env option \<Rightarrow> nat option \<Rightarrow> bool \<Rightarrow> string option \<Rightarrow> spawn_request" where
  "run_request shell_cmd env_arg timeout shell cwd_arg =
     \<lparr>sr_args = convert_cmd shell_cmd, sr_shell = shell, sr_cwd = cwd_arg, sr_env = env_arg,
      sr_timeout = timeout, sr_stdin_pipe = True\<rparr>"

definition run ::
  "platform \<Rightarrow> logger \<Rightarrow> shell_cmd \<Rightarrow> env option \<Rightarrow> bool \<Rightarrow> nat option \<Rightarrow> bool \<Rightarrow> string option
     \<Rightarrow> state \<Rightarrow> (error + completed_process) \<times> state" where
  "run pf lg shell_cmd env_arg ignore_errors timeout shell cwd_arg s =
     (case start_process pf (run_request shell_cmd env_arg timeout shell cwd_arg) s of
        (Inl e, s1) \<Rightarrow> (Inl e, s1)
      | (Inr (rc, out, err), s1) \<Rightarrow>
       (case decode out of
           None \<Rightarrow> (Inl UnicodeDecodeError, s1)
         | Some out' \<Rightarrow>
       (case decode err of
           None \<Rightarrow> (Inl UnicodeDecodeError, s1)
         | Some err' \<Rightarrow>
       (let p = \<lparr>cp_args = convert_cmd shell_cmd, returncode = rc, stdout = out', stderr = err'\<rparr>
        in case log_subprocess lg p s1 of
             (Inl e, s2) \<Rightarrow> (Inl e, s2)
           | (Inr _, s2) \<Rightarrow>
               (if \<not> ignore_errors \<and> returncode p \<noteq> 0
                then (Inl (CalledProcessError (returncode p) (cp_args p) (stdout p) (stderr p)), s2)
                else (Inr p, s2))))))"

text \<open>The environment a child process gets for a request.\<close>

definition child_environment :: "platform \<Rightarrow> spawn_request \<Rightarrow> env" where
  "child_environment pf req = (case sr_env req of None \<Rightarrow> environ pf | Some e \<Rightarrow> e)"

section \<open>\<open>install_compilers_apt_packages\<close>\<close>

definition apt_packages :: "Arch \<Rightarrow> string list" where
  "apt_packages arch =
     (if arch = ARMV7L then [''g++-arm-linux-gnueabi'', ''gcc-arm-linux-gnueabi'']
      else if arch = ARMV7LHF then [''g++-arm-linux-gnueabihf'', ''gcc-arm-linux-gnueabihf'']
      else [''g++-'' @ arch_value arch @ ''-linux-gnu'', ''gcc-'' @ arch_value arch @ ''-linux-gnu''])"

text \<open>
  The runner is \<open>ShellRunner()\<close>, whose logger is \<open>logging.getLogger('shell_runner')\<close>: the
  argument \<open>lg\<close>. The result of \<open>runner.run\<close> is dropped.
\<close>

definition install_compilers_apt_packages ::
  "platform \<Rightarrow> logger \<Rightarrow> Arch \<Rightarrow> state \<Rightarrow> (error + unit) \<times> state" where
  "install_compilers_apt_packages pf lg arch s =
     (case run pf lg (CmdString (''sudo apt-get install -y '' @ str_join '' '' (apt_packages arch)))
             None False None True None s of
        (Inl e, s1) \<Rightarrow> (Inl e, s1)
      | (Inr _, s1) \<Rightarrow> (Inr (), s1))"

section \<open>Example surroundings\<close>

text \<open>Concrete platforms, loggers and states on which the theorems below are instantiated.\<close>

definition example_platform :: platform where
  "example_platform =
     \<lparr>environ = [(''PATH'', ''/usr/bin'')],
      run_process = (\<lambda>s req. Inr (0, [], []))\<rparr>"

definition quiet_logger :: logger where
  "quiet_logger = \<lparr>rejects = (\<lambda>lvl msg. False)\<rparr>"

definition start_state :: state where
  "start_state =
     \<lparr>cwd = ''/home/build'', dirs = [''/home/build'', ''/opt/tc''], files = [], log = [],
      spawned = []\<rparr>"

text \<open>
  A wrapped operation that removes \<open>/home/build\<close>, the directory current on entry in
  \<open>start_state\<close>: \<open>os.rmdir\<close>.
\<close>

definition remove_entry_directory :: "string \<Rightarrow> state \<Rightarrow> (error + unit) \<times> state" where
  "remove_entry_directory d s = (Inr (), s\<lparr>dirs := removeAll ''/home/build'' (dirs s)\<rparr>)"

definition failing_platform :: platform where
  "failing_platform =
     \<lparr>environ = [(''PATH'', ''/usr/bin'')],
      run_process = (\<lambda>s req. Inr (2, [], ''boom''))\<rparr>"

definition build_step :: "string \<Rightarrow> state \<Rightarrow> (error + completed_process) \<times> state" where
  "build_step d s = run failing_platform quiet_logger (CmdList [Str ''make'']) None False None False None s"

definition binary_platform :: platform where
  "binary_platform =
     \<lparr>environ = [(''PATH'', ''/usr/bin'')],
      run_process = (\<lambda>s req. Inr (0, [CHR 0xFF], []))\<rparr>"

definition accent_platform :: platform where
  "accent_platform =
     \<lparr>environ = [(''PATH'', ''/usr/bin'')],
      run_process = (\<lambda>s req. Inr (0, [CHR 0xC3, CHR 0xA9], []))\<rparr>"

definition ascii_logger :: logger where
  "ascii_logger = \<lparr>rejects = (\<lambda>lvl msg. list_ex (\<lambda>c. 128 \<le> byte c) msg)\<rparr>"

section \<open>Words without whitespace, exit codes\<close>







section \<open>Frame lemmas\<close>

lemma log_line_frame [simp]:
  "cwd (log_line lvl msg s) = cwd s"
  "dirs (log_line lvl msg s) = dirs s"
  "files (log_line lvl msg s) = files s"
  "spawned (log_line lvl msg s) = spawned s"
  "log (log_line lvl msg s) = log s @ [(lvl, msg)]"
  by (simp_all add: log_line_def)

lemma log_entry_frame:
  "cwd (snd (log_entry lg lvl msg s)) = cwd s"
  "dirs (snd (log_entry lg lvl msg s)) = dirs s"
  "files (snd (log_entry lg lvl msg s)) = files s"
  "spawned (snd (log_entry lg lvl msg s)) = spawned s"
  by (simp_all add: log_entry_def)

lemma fallback_frame:
  "cwd (snd (fallback lg lvl1 lvl2 m s)) = cwd s \<and>
   dirs (snd (fallback lg lvl1 lvl2 m s)) = dirs s \<and>
   files (snd (fallback lg lvl1 lvl2 m s)) = files s \<and>
   spawned (snd (fallback lg lvl1 lvl2 m s)) = spawned s"
  by (simp add: fallback_def log_entry_def)

lemma start_process_frame [simp]:
  "cwd (snd (start_process pf req s)) = cwd s"
  "dirs (snd (start_process pf req s)) = dirs s"
  "files (snd (start_process pf req s)) = files s"
  "log (snd (start_process pf req s)) = log s"
  "spawned (snd (start_process pf req s)) = spawned s @ [(req, run_process pf s req)]"
  "fst (start_process pf req s) = run_process pf s req"
  by (simp_all add: start_process_def)

lemma check_subprocess_output_frame:
  "cwd (snd (check_subprocess_output lg p s)) = cwd s \<and>
   dirs (snd (check_subprocess_output lg p s)) = dirs s \<and>
   files (snd (check_subprocess_output lg p s)) = files s \<and>
   spawned (snd (check_subprocess_output lg p s)) = spawned s"
  by (simp add: check_subprocess_output_def fallback_def log_entry_def Let_def
        split: option.splits prod.splits sum.splits)

lemma log_subprocess_frame:
  "cwd (snd (log_subprocess lg p s)) = cwd s \<and>
   dirs (snd (log_subprocess lg p s)) = dirs s \<and>
   files (snd (log_subprocess lg p s)) = files s \<and>
   spawned (snd (log_subprocess lg p s)) = spawned s"
  by (simp add: log_subprocess_def log_entry_def Let_def)

lemma run_frame:
  "cwd (snd (run pf lg shell_cmd env_arg ignore_errors timeout shell cwd_arg s)) = cwd s \<and>
   dirs (snd (run pf lg shell_cmd env_arg ignore_errors timeout shell cwd_arg s)) = dirs s \<and>
   files (snd (run pf lg shell_cmd env_arg ignore_errors timeout shell cwd_arg s)) = files s \<and>
   map fst (spawned (snd (run pf lg shell_cmd env_arg ignore_errors timeout shell cwd_arg s))) =
     map fst (spawned s) @
       [\<lparr>sr_args = (case shell_cmd of CmdList arr \<Rightarrow> ArgsList (convert_pathlib_instance_to_str arr)
                      | CmdString c \<Rightarrow> ArgsString c),
         sr_shell = shell, sr_cwd = cwd_arg, sr_env = env_arg, sr_timeout = timeout,
         sr_stdin_pipe = True\<rparr>]"
  by (simp add: run_def run_request_def convert_cmd_def Let_def start_process_def
        log_subprocess_def log_entry_def
        split: sum.splits option.splits prod.splits shell_cmd.splits)

lemma run_subprocess_frame:
  "cwd (snd (run_subprocess pf lg command_line check_output cwd_arg shell update_env s)) = cwd s \<and>
   dirs (snd (run_subprocess pf lg command_line check_output cwd_arg shell update_env s)) = dirs s \<and>
   files (snd (run_subprocess pf lg command_line check_output cwd_arg shell update_env s)) = files s \<and>
   map fst (spawned (snd (run_subprocess pf lg command_line check_output cwd_arg shell update_env s))) =
     map fst (spawned s) @
       [\<lparr>sr_args = (if shell then ArgsString command_line
                      else ArgsList (map Str (py_split command_line))),
         sr_shell = shell, sr_cwd = cwd_arg,
         sr_env = Some (update_loop (environ pf) (case update_env of None \<Rightarrow> [] | Some u \<Rightarrow> u)),
         sr_timeout = None, sr_stdin_pipe = False\<rparr>]"
  using check_subprocess_output_frame
  by (simp add: run_subprocess_def subprocess_request_def Let_def start_process_def
        split: sum.splits option.splits prod.splits)

section \<open>Substrings\<close>

lemma startswith_iff: "startswith s p \<longleftrightarrow> (\<exists>suf. s = p @ suf)"
proof
  assume "startswith s p"
  then have "s = p @ drop (length p) s"
    by (metis append_take_drop_id startswith_def)
  then show "\<exists>suf. s = p @ suf" ..
next
  assume "\<exists>suf. s = p @ suf"
  then show "startswith s p" by (auto simp: startswith_def)
qed

lemma str_contains_iff: "str_contains sub s \<longleftrightarrow> (\<exists>pre suf. s = pre @ sub @ suf)"
proof (induction s)
  case Nil
  then show ?case by auto
next
  case (Cons c cs)
  show ?case
  proof
    assume "str_contains sub (c # cs)"
    then consider "startswith (c # cs) sub" | "str_contains sub cs" by auto
    then show "\<exists>pre suf. c # cs = pre @ sub @ suf"
    proof cases
      case 1
      then obtain suf where "c # cs = sub @ suf" by (auto simp: startswith_iff)
      then have "c # cs = [] @ sub @ suf" by simp
      then show ?thesis by blast
    next
      case 2
      then obtain pre suf where "cs = pre @ sub @ suf" using Cons.IH by blast
      then have "c # cs = (c # pre) @ sub @ suf" by simp
      then show ?thesis by blast
    qed
  next
    assume "\<exists>pre suf. c # cs = pre @ sub @ suf"
    then obtain pre suf where eq: "c # cs = pre @ sub @ suf" by blast
    show "str_contains sub (c # cs)"
    proof (cases pre)
      case Nil
      with eq have "startswith (c # cs) sub" by (auto simp: startswith_iff)
      then show ?thesis by simp
    next
      case (Cons p ps)
      with eq have "cs = ps @ sub @ suf" by simp
      then have "str_contains sub cs" using Cons.IH by blast
      then show ?thesis by simp
    qed
  qed
qed

section \<open>One installer\<close>

lemma toolchain_installers_empty:
  "(\<forall>m \<in> set members. \<not> str_contains ''.sh'' (name m)) \<Longrightarrow> toolchain_installers tar_path members = []"
  by (simp add: toolchain_installers_def filter_empty_conv)

lemma install_loop_single:
  "snd (install_loop pf lg [i] d s) =
   snd (run_subprocess pf lg (installer_command i d) True None False None
          (log_line INFO (''installing '' @ path_str i) s))"
  by (simp split: prod.splits sum.splits)

section \<open>Changing directory\<close>

lemma os_chdir_back:
  assumes "isabs p" "normpath p = p" "p \<in> set (dirs st)"
  shows "os_chdir p st = (Inr (), st\<lparr>cwd := p\<rparr>)"
  using assms by (simp add: os_chdir_def abspath_def)

lemma convert_make:
  "convert_cmd (CmdList [Str ''make'']) = ArgsList [Str ''make'']"
  by (simp add: convert_cmd_def convert_pathlib_instance_to_str_def convert_word_def)

lemma build_step_raises:
  "fst (build_step d s) = Inl (CalledProcessError 2 (ArgsList [Str ''make'']) [] ''boom'')"
proof -
  have d1: "decode [] = Some []" by (simp add: decode_def)
  have d2: "decode ''boom'' = Some ''boom''" by (simp add: decode_def byte_def)
  have l: "log_subprocess quiet_logger p st \<noteq> (Inl e, st')" for p st e st'
    by (simp add: log_subprocess_def log_entry_def quiet_logger_def Let_def)
  show ?thesis
    unfolding build_step_def run_def Let_def
    by (simp add: l start_process_def failing_platform_def d1 d2 convert_make
        run_request_def split: prod.splits sum.splits)
qed

lemma build_step_dirs: "dirs (snd (build_step d s)) = dirs s"
  using run_frame by (simp add: build_step_def)

section \<open>Subprocesses started, their environment and their result\<close>

lemma run_spawned:
  "spawned (snd (run pf lg shell_cmd env_arg ignore_errors timeout shell cwd_arg s)) =
     spawned s @ [(run_request shell_cmd env_arg timeout shell cwd_arg,
                   run_process pf s (run_request shell_cmd env_arg timeout shell cwd_arg))]"
  by (simp add: run_def Let_def start_process_def log_subprocess_def log_entry_def
        split: sum.splits option.splits prod.splits)

lemma run_subprocess_spawned:
  "spawned (snd (run_subprocess pf lg command_line check_output cwd_arg shell update_env s)) =
     spawned s @ [(subprocess_request pf command_line cwd_arg shell update_env,
                   run_process pf s (subprocess_request pf command_line cwd_arg shell update_env))]"
  using check_subprocess_output_frame
  by (simp add: run_subprocess_def Let_def start_process_def
        split: sum.splits option.splits prod.splits)

lemma map_of_dict_set: "map_of (dict_set k v e) = (map_of e)(k \<mapsto> v)"
  by (induction e) (auto simp: fun_eq_iff)

lemma map_of_update_loop:
  "distinct (map fst u) \<Longrightarrow>
   map_of (update_loop e u) k = (case map_of u k of Some v \<Rightarrow> Some v | None \<Rightarrow> map_of e k)"
proof (induction u arbitrary: e)
  case Nil
  then show ?case by simp
next
  case (Cons kv items)
  obtain k' v' where kv: "kv = (k', v')" by (cases kv)
  from Cons.prems kv have d: "distinct (map fst items)" and n: "k' \<notin> fst ` set items" by auto
  from n have none: "map_of items k' = None" by (simp add: map_of_eq_None_iff)
  show ?case
    using Cons.IH [OF d, of "dict_set k' v' e"] none
    by (auto simp: kv map_of_dict_set split: option.splits)
qed

lemma quiet_logger_takes_entry:
  "fst (log_subprocess quiet_logger p st) = Inr ()"
  by (simp add: log_subprocess_def log_entry_def quiet_logger_def Let_def)

lemma decode_boom: "decode [] = Some [] \<and> decode ''boom'' = Some ''boom''"
  by (simp add: decode_def byte_def)

lemma run_logger_error:
  assumes "run_process pf s (run_request shell_cmd env_arg timeout shell cwd_arg) = Inr (rc, out, err)"
    and "decode out = Some out'" and "decode err = Some err'"
    and "fst (log_subprocess lg
           \<lparr>cp_args = convert_cmd shell_cmd, returncode = rc, stdout = out', stderr = err'\<rparr>
           (snd (start_process pf (run_request shell_cmd env_arg timeout shell cwd_arg) s))) = Inl e"
  shows "fst (run pf lg shell_cmd env_arg ignore_errors timeout shell cwd_arg s) = Inl e"
proof -
  let ?req = "run_request shell_cmd env_arg timeout shell cwd_arg"
  let ?p = "\<lparr>cp_args = convert_cmd shell_cmd, returncode = rc, stdout = out', stderr = err'\<rparr>"
  obtain s1 where sp: "start_process pf ?req s = (Inr (rc, out, err), s1)"
    using assms(1) by (simp add: start_process_def)
  then have "fst (log_subprocess lg ?p s1) = Inl e"
    using assms(4) by simp
  then obtain s2 where lg: "log_subprocess lg ?p s1 = (Inl e, s2)"
    by (cases "log_subprocess lg ?p s1") auto
  show ?thesis
    by (simp add: run_def Let_def sp assms(2,3) lg)
qed

section \<open>The path check\<close>

lemma prefix_loop_self: "prefix_loop a b = Some a \<longleftrightarrow> startswith b a"
proof (induction a arbitrary: b)
  case Nil
  then show ?case by (simp add: startswith_def)
next
  case (Cons c cs)
  show ?case
  proof (cases b)
    case Nil
    then show ?thesis by (simp add: startswith_def)
  next
    case (Cons d ds)
    with Cons.IH [of ds] show ?thesis by (auto simp: startswith_def)
  qed
qed

lemma prefix_loop_is_prefix: "prefix_loop a b = Some p \<Longrightarrow> startswith a p"
proof (induction a b arbitrary: p rule: prefix_loop.induct)
  case (1 s2)
  then show ?case by (simp add: startswith_def)
next
  case (2 c cs)
  then show ?case by simp
next
  case (3 c cs d ds)
  then show ?case by (auto simp: startswith_def split: if_splits)
qed

lemma startswith_le: "startswith b a \<Longrightarrow> a \<le> b"
proof (induction a arbitrary: b)
  case Nil
  then show ?case by simp
next
  case (Cons c cs)
  then show ?case by (cases b) (auto simp: startswith_def)
qed

lemma commonprefix_pair: "commonprefix [a, b] = Some a \<longleftrightarrow> startswith b a"
proof (cases "b \<le> a")
  case True
  then have cp: "commonprefix [a, b] = prefix_loop b a"
    by (simp add: commonprefix_def min_def max_def)
  show ?thesis
  proof
    assume "commonprefix [a, b] = Some a"
    with cp show "startswith b a" using prefix_loop_is_prefix by simp
  next
    assume sw: "startswith b a"
    then have "a \<le> b" by (rule startswith_le)
    with True have "a = b" by simp
    then show "commonprefix [a, b] = Some a"
      using cp prefix_loop_self [of a a] by (simp add: startswith_def)
  qed
next
  case False
  then have "commonprefix [a, b] = prefix_loop a b"
    by (simp add: commonprefix_def min_def max_def)
  then show ?thesis by (simp add: prefix_loop_self)
qed

lemma is_within_directory_iff:
  "is_within_directory wd directory target \<longleftrightarrow>
   startswith (abspath wd target) (abspath wd directory)"
  by (simp add: is_within_directory_def Let_def commonprefix_pair)

lemma check_members_Inl:
  "check_members wd path members = Inl e \<Longrightarrow> e = Exception ''Attempted Path Traversal in Tar File''"
  by (induction members) (auto simp: Let_def split: if_splits)

lemma check_members_fails_iff:
  "(\<exists>e. check_members wd path members = Inl e) \<longleftrightarrow>
   (\<exists>m \<in> set members. \<not> startswith (abspath wd (os_path_join path (name m))) (abspath wd path))"
  by (induction members) (auto simp: Let_def is_within_directory_iff)

lemma install_loop_frame:
  "files (snd (install_loop pf lg installers d s)) = files s \<and>
   cwd (snd (install_loop pf lg installers d s)) = cwd s"
proof (induction installers arbitrary: s)
  case Nil
  then show ?case by simp
next
  case (Cons i rest)
  let ?r = "run_subprocess pf lg (installer_command i d) True None False None
              (log_line INFO (''installing '' @ path_str i) s)"
  have f: "files (snd ?r) = files s \<and> cwd (snd ?r) = cwd s"
    using run_subprocess_frame [of pf lg "installer_command i d" True None False None
        "log_line INFO (''installing '' @ path_str i) s"]
    by simp
  show ?case
  proof (cases ?r)
    case (Pair r1 s1)
    with f have f1: "files s1 = files s \<and> cwd s1 = cwd s" by simp
    show ?thesis
    proof (cases r1)
      case (Inl e)
      with Pair f1 show ?thesis by simp
    next
      case (Inr u)
      with Pair f1 Cons.IH [of s1] show ?thesis by simp
    qed
  qed
qed

text \<open>
  The check compares strings, not path components: a member that resolves into a sibling
  directory whose name begins with the name of the archive's directory passes it and is
  written outside that directory.
\<close>

lemma sibling_directory_member_is_extracted:
  "abspath (cwd start_state) (os_path_join ''/opt/tc'' ''../tc-evil/x'') = ''/opt/tc-evil/x'' \<and>
   is_within_directory (cwd start_state) ''/opt/tc'' (os_path_join ''/opt/tc'' ''../tc-evil/x'') \<and>
   files (snd (extract_and_install_toolchain example_platform quiet_logger (parse_path ''/opt/tc/toolchain.tar.gz'')
          [\<lparr>name = ''install.sh'', content = ''#!/bin/sh''\<rparr>, \<lparr>name = ''../tc-evil/x'', content = ''payload''\<rparr>]
          ''/opt/out'' start_state)) =
     [(''/opt/tc/install.sh'', ''#!/bin/sh''), (''/opt/tc/../tc-evil/x'', ''payload'')]"
proof -
  let ?ms = "[\<lparr>name = ''install.sh'', content = ''#!/bin/sh''\<rparr>, \<lparr>name = ''../tc-evil/x'', content = ''payload''\<rparr>]"
  let ?tp = "parse_path ''/opt/tc/toolchain.tar.gz''"
  have dn: "dirname (path_str ?tp) = ''/opt/tc''"
    by (simp add: parse_path_def startswith_def dirname_def)
  have j1: "os_path_join ''/opt/tc'' ''../tc-evil/x'' = ''/opt/tc/../tc-evil/x''"
    by (simp add: os_path_join_def startswith_def endswith_def)
  have j2: "os_path_join ''/opt/tc'' ''install.sh'' = ''/opt/tc/install.sh''"
    by (simp add: os_path_join_def startswith_def endswith_def)
  have a1: "abspath wd ''/opt/tc/../tc-evil/x'' = ''/opt/tc-evil/x''" for wd
    by (simp add: abspath_def isabs_def startswith_def normpath_def)
  have a2: "abspath wd ''/opt/tc'' = ''/opt/tc''" for wd
    by (simp add: abspath_def isabs_def startswith_def normpath_def)
  have a3: "abspath wd ''/opt/tc/install.sh'' = ''/opt/tc/install.sh''" for wd
    by (simp add: abspath_def isabs_def startswith_def normpath_def)
  have w1: "is_within_directory wd ''/opt/tc'' ''/opt/tc/../tc-evil/x''" for wd
    by (simp add: is_within_directory_iff a1 a2 startswith_def)
  have w2: "is_within_directory wd ''/opt/tc'' ''/opt/tc/install.sh''" for wd
    by (simp add: is_within_directory_iff a3 a2 startswith_def)
  have chk: "check_members wd ''/opt/tc'' ?ms = Inr ()" for wd
    by (simp add: j1 j2 w1 w2)
  have ti: "toolchain_installers ?tp ?ms = [Path ''/'' [''opt'', ''tc'', ''install.sh'']]"
    by (simp add: toolchain_installers_def parse_path_def startswith_def)
  have "snd (extract_and_install_toolchain example_platform quiet_logger ?tp ?ms ''/opt/out'' start_state) =
        snd (install_loop example_platform quiet_logger [Path ''/'' [''opt'', ''tc'', ''install.sh'']] ''/opt/out''
              (log_line INFO ''installing toolchain''
                (extractall ''/opt/tc'' ?ms (log_line INFO ''extracting toolchain'' start_state))))"
    by (simp add: extract_and_install_toolchain_def Let_def ti dn safe_extract_def chk
          del: install_loop.simps check_members.simps)
  then have "files (snd (extract_and_install_toolchain example_platform quiet_logger ?tp ?ms ''/opt/out'' start_state)) =
      files (extractall ''/opt/tc'' ?ms (log_line INFO ''extracting toolchain'' start_state))"
    by (simp only: install_loop_frame) simp
  then show ?thesis
    by (simp add: j1 j2 a1 w1 extractall_def start_state_def)
qed

section \<open>Splitting the installer command\<close>


lemma not_ws_space [simp]: "\<not> is_ws2 x CHR '' ''" "\<not> is_ws3 x CHR '' '' c" "\<not> is_ws3 x y CHR '' ''"
  by (simp_all add: is_ws2_def is_ws3_def byte_def)
















section \<open>What the fallback lines hold\<close>

lemma hexdigit_ascii: "n < 16 \<Longrightarrow> byte (hexdigit n) < 128"
proof -
  assume n: "n < 16"
  have all: "\<forall>c \<in> set ''0123456789abcdef''. byte c < 128" by (simp add: byte_def)
  from n have "hexdigit n \<in> set ''0123456789abcdef''"
    unfolding hexdigit_def by (intro nth_mem) simp
  with all show ?thesis by blast
qed

lemma repr_byte_ascii:
  assumes "byte quote < 128"
  shows "\<forall>x \<in> set (repr_byte quote c). byte x < 128"
proof -
  have lt: "byte c < 256" by (simp add: byte_def)
  then have h1: "byte (hexdigit (byte c div 16)) < 128" by (intro hexdigit_ascii) simp
  have h2: "byte (hexdigit (byte c mod 16)) < 128" by (intro hexdigit_ascii) simp
  have k: "byte (CHR 0x5C) < 128" "byte CHR ''t'' < 128" "byte CHR ''n'' < 128"
    "byte CHR ''r'' < 128" "byte CHR ''x'' < 128"
    by (simp_all add: byte_def)
  show ?thesis
    using assms h1 h2 k by (auto simp: repr_byte_def split: if_splits)
qed

lemma bytes_repr_ascii: "\<forall>x \<in> set (bytes_repr b). byte x < 128"
proof -
  let ?q = "if CHR 0x27 \<in> set b \<and> CHR 0x22 \<notin> set b then CHR 0x22 else CHR 0x27"
  have q: "byte ?q < 128" by (simp add: byte_def)
  have "\<forall>x \<in> set (concat (map (repr_byte ?q) b)). byte x < 128"
    using repr_byte_ascii [OF q] by auto
  moreover have "byte CHR ''b'' < 128" by (simp add: byte_def)
  ultimately show ?thesis
    using q unfolding bytes_repr_def Let_def by (auto simp del: set_concat)
qed

lemma ascii_logger_takes_ascii:
  "\<forall>x \<in> set msg. byte x < 128 \<Longrightarrow> \<not> rejects ascii_logger lvl msg"
  by (auto simp: ascii_logger_def list_ex_iff)

lemma ascii_logger_fallback:
  "fst (fallback ascii_logger lvl1 lvl2 m st) = Inr () \<and>
   map fst (log (snd (fallback ascii_logger lvl1 lvl2 m st))) = map fst (log st) @ [lvl1, lvl2]"
proof -
  have a: "\<not> rejects ascii_logger lvl1 ''An error occurred when trying to logging the output date''"
    by (intro ascii_logger_takes_ascii) (simp add: byte_def)
  have "\<forall>x \<in> set (''Encoded log message:'' @ NL @ bytes_repr m). byte x < 128"
    using bytes_repr_ascii [of m] by (simp add: NL_def byte_def)
  then have b: "\<not> rejects ascii_logger lvl2 (''Encoded log message:'' @ NL @ bytes_repr m)"
    by (rule ascii_logger_takes_ascii)
  show ?thesis
    using a b by (simp add: fallback_def log_entry_def)
qed

section \<open>Properties\<close>

text \<open>
  C5: for each of the three architectures the packages computed are those of the fixed
  table, as a set, and \<open>install_compilers_apt_packages\<close> starts exactly one subprocess:
  the shell command \<open>sudo apt-get install -y\<close> followed by all the packages.
\<close>

theorem apt_packages_table:
  "set (apt_packages ARMV7L) = {''g++-arm-linux-gnueabi'', ''gcc-arm-linux-gnueabi''} \<and>
   set (apt_packages ARMV7LHF) = {''g++-arm-linux-gnueabihf'', ''gcc-arm-linux-gnueabihf''} \<and>
   set (apt_packages AARCH64) = {''g++-aarch64-linux-gnu'', ''gcc-aarch64-linux-gnu''} \<and>
   map fst (spawned (snd (install_compilers_apt_packages pf lg arch s))) =
     map fst (spawned s) @
       [\<lparr>sr_args = ArgsString (''sudo apt-get install -y '' @ str_join '' '' (apt_packages arch)),
         sr_shell = True, sr_cwd = None, sr_env = None, sr_timeout = None,
         sr_stdin_pipe = True\<rparr>]"
proof -
  have tbl: "set (apt_packages ARMV7L) = {''g++-arm-linux-gnueabi'', ''gcc-arm-linux-gnueabi''}"
    "set (apt_packages ARMV7LHF) = {''g++-arm-linux-gnueabihf'', ''gcc-arm-linux-gnueabihf''}"
    "set (apt_packages AARCH64) = {''g++-aarch64-linux-gnu'', ''gcc-aarch64-linux-gnu''}"
    by (simp_all add: apt_packages_def)
  let ?c = "CmdString (''sudo apt-get install -y '' @ str_join '' '' (apt_packages arch))"
  have "snd (install_compilers_apt_packages pf lg arch s) = snd (run pf lg ?c None False None True None s)"
    by (simp add: install_compilers_apt_packages_def split: prod.splits sum.splits)
  then have "map fst (spawned (snd (install_compilers_apt_packages pf lg arch s))) =
     map fst (spawned s) @
       [\<lparr>sr_args = ArgsString (''sudo apt-get install -y '' @ str_join '' '' (apt_packages arch)),
         sr_shell = True, sr_cwd = None, sr_env = None, sr_timeout = None,
         sr_stdin_pipe = True\<rparr>]"
    using run_frame [of pf lg ?c None False None True None s] by simp
  with tbl show ?thesis by simp
qed

theorem apt_packages_table_witness:
  "map (sr_args \<circ> fst)
     (spawned (snd (install_compilers_apt_packages example_platform quiet_logger ARMV7LHF start_state))) =
   [ArgsString ''sudo apt-get install -y g++-arm-linux-gnueabihf gcc-arm-linux-gnueabihf'']"
proof -
  have "map fst (spawned (snd (install_compilers_apt_packages example_platform quiet_logger ARMV7LHF start_state))) =
     map fst (spawned start_state) @
       [\<lparr>sr_args = ArgsString (''sudo apt-get install -y '' @ str_join '' '' (apt_packages ARMV7LHF)),
         sr_shell = True, sr_cwd = None, sr_env = None, sr_timeout = None,
         sr_stdin_pipe = True\<rparr>]"
    using apt_packages_table [of example_platform quiet_logger ARMV7LHF start_state] by blast
  then have "map sr_args (map fst (spawned (snd (install_compilers_apt_packages example_platform quiet_logger ARMV7LHF start_state)))) =
     [ArgsString ''sudo apt-get install -y g++-arm-linux-gnueabihf gcc-arm-linux-gnueabihf'']"
    by (simp add: start_state_def apt_packages_def)
  then show ?thesis by simp
qed

text \<open>
  C7: when no member name of the archive contains \<open>.sh\<close>, the operation raises
  \<open>FileNotFoundError("No toolchain installer found")\<close>; an archive with one member named
  \<open>install.sh\<close> and one named \<open>readme.txt\<close>, in either order, has exactly one installer
  candidate, \<open>install.sh\<close> beside the archive.
\<close>

theorem no_installer_raises:
  "((\<forall>m \<in> set members. \<not> str_contains ''.sh'' (name m)) \<longrightarrow>
      fst (extract_and_install_toolchain pf lg tar_path members dir_to_install_toolchain_in s) =
        Inl (FileNotFoundError ''No toolchain installer found'')) \<and>
   toolchain_installers tar_path
      [\<lparr>name = ''install.sh'', content = c1\<rparr>, \<lparr>name = ''readme.txt'', content = c2\<rparr>] =
     [path_join (path_parent tar_path) (parse_path ''install.sh'')] \<and>
   toolchain_installers tar_path
      [\<lparr>name = ''readme.txt'', content = c2\<rparr>, \<lparr>name = ''install.sh'', content = c1\<rparr>] =
     [path_join (path_parent tar_path) (parse_path ''install.sh'')]"
  by (simp add: extract_and_install_toolchain_def Let_def toolchain_installers_empty)
     (simp add: toolchain_installers_def startswith_def)

theorem no_installer_raises_witness:
  "fst (extract_and_install_toolchain example_platform quiet_logger (parse_path ''/opt/tc/toolchain.tar.gz'')
          [\<lparr>name = ''readme.txt'', content = ''hello''\<rparr>] ''/opt/out'' start_state) =
     Inl (FileNotFoundError ''No toolchain installer found'') \<and>
   map path_str (toolchain_installers (parse_path ''/opt/tc/toolchain.tar.gz'')
      [\<lparr>name = ''install.sh'', content = ''#!/bin/sh''\<rparr>, \<lparr>name = ''readme.txt'', content = ''hello''\<rparr>]) =
     [''/opt/tc/install.sh'']"
proof -
  have h: "\<forall>m \<in> set [\<lparr>name = ''readme.txt'', content = ''hello''\<rparr>]. \<not> str_contains ''.sh'' (name m)"
    by (simp add: startswith_def)
  have p: "path_str (path_join (path_parent (parse_path ''/opt/tc/toolchain.tar.gz'')) (parse_path ''install.sh'')) = ''/opt/tc/install.sh''"
    by (simp add: parse_path_def startswith_def)
  show ?thesis
    using h p no_installer_raises [of "[\<lparr>name = ''readme.txt'', content = ''hello''\<rparr>]" example_platform quiet_logger
        "parse_path ''/opt/tc/toolchain.tar.gz''" "''/opt/out''" start_state "''#!/bin/sh''" "''hello''"]
    by simp
qed

text \<open>
  C10: a member is an installer candidate exactly when \<open>.sh\<close> occurs somewhere in its
  name. The member \<open>notes.shop.txt\<close>, whose name does not end in \<open>.sh\<close>, is a candidate,
  and the operation starts it as an installer with \<open>-d\<close>, the install directory and
  \<open>-y\<close>.
\<close>

theorem installer_is_substring_match:
  "toolchain_installers tar_path members =
     map (\<lambda>m. path_join (path_parent tar_path) (parse_path (name m)))
         (filter (\<lambda>m. \<exists>pre suf. name m = pre @ ''.sh'' @ suf) members) \<and>
   \<not> endswith ''notes.shop.txt'' ''.sh'' \<and>
   map path_str (toolchain_installers (parse_path ''/opt/tc/toolchain.tar.gz'')
                   [\<lparr>name = ''notes.shop.txt'', content = c\<rparr>]) = [''/opt/tc/notes.shop.txt''] \<and>
   map (sr_args \<circ> fst)
     (spawned (snd (extract_and_install_toolchain pf lg (parse_path ''/opt/tc/toolchain.tar.gz'')
                      [\<lparr>name = ''notes.shop.txt'', content = c\<rparr>] ''/opt/out'' s))) =
     map (sr_args \<circ> fst) (spawned s) @
       [ArgsList (map Str [''/opt/tc/notes.shop.txt'', ''-d'', ''/opt/out'', ''-y''])]"
proof -
  let ?tp = "parse_path ''/opt/tc/toolchain.tar.gz''"
  let ?ms = "[\<lparr>name = ''notes.shop.txt'', content = c\<rparr>]"
  let ?i = "Path ''/'' [''opt'', ''tc'', ''notes.shop.txt'']"
  have a: "toolchain_installers tar_path members =
     map (\<lambda>m. path_join (path_parent tar_path) (parse_path (name m)))
         (filter (\<lambda>m. \<exists>pre suf. name m = pre @ ''.sh'' @ suf) members)"
    by (simp add: toolchain_installers_def str_contains_iff)
  have b: "\<not> endswith ''notes.shop.txt'' ''.sh''"
    by (simp add: endswith_def)
  have ti: "toolchain_installers ?tp ?ms = [?i]"
    by (simp add: toolchain_installers_def parse_path_def startswith_def)
  have c: "map path_str (toolchain_installers ?tp ?ms) = [''/opt/tc/notes.shop.txt'']"
    by (simp add: ti)
  have dn: "dirname (path_str ?tp) = ''/opt/tc''"
    by (simp add: parse_path_def startswith_def dirname_def)
  have a1: "abspath wd ''/opt/tc'' = ''/opt/tc''" for wd
    by (simp add: abspath_def isabs_def startswith_def normpath_def)
  have a2: "os_path_join ''/opt/tc'' ''notes.shop.txt'' = ''/opt/tc/notes.shop.txt''"
    by (simp add: os_path_join_def startswith_def endswith_def)
  have a3: "abspath wd ''/opt/tc/notes.shop.txt'' = ''/opt/tc/notes.shop.txt''" for wd
    by (simp add: abspath_def isabs_def startswith_def normpath_def)
  have a4: "commonprefix [''/opt/tc'', ''/opt/tc/notes.shop.txt''] = Some ''/opt/tc''"
    by (simp add: commonprefix_def)
  have chk: "check_members wd ''/opt/tc'' ?ms = Inr ()" for wd
    by (simp add: is_within_directory_def a1 a2 a3 a4)
  have cmd: "py_split (installer_command ?i ''/opt/out'') =
      [''/opt/tc/notes.shop.txt'', ''-d'', ''/opt/out'', ''-y'']"
    by (simp add: installer_command_def py_split_def is_ws1_def is_ws2_def is_ws3_def byte_def)
  have "snd (extract_and_install_toolchain pf lg ?tp ?ms ''/opt/out'' s) =
        snd (run_subprocess pf lg (installer_command ?i ''/opt/out'') True None False None
              (log_line INFO (''installing '' @ path_str ?i)
                (log_line INFO ''installing toolchain''
                  (extractall ''/opt/tc'' ?ms (log_line INFO ''extracting toolchain'' s)))))"
    unfolding extract_and_install_toolchain_def Let_def ti dn safe_extract_def
    by (simp only: chk install_loop_single list.size sum.case prod.case split: if_splits) simp
  then have "map fst (spawned (snd (extract_and_install_toolchain pf lg ?tp ?ms ''/opt/out'' s))) =
      map fst (spawned s) @
       [\<lparr>sr_args = ArgsList (map Str (py_split (installer_command ?i ''/opt/out''))),
         sr_shell = False, sr_cwd = None,
         sr_env = Some (update_loop (environ pf) []),
         sr_timeout = None, sr_stdin_pipe = False\<rparr>]"
    using run_subprocess_frame [of pf lg "installer_command ?i ''/opt/out''" True None False None]
    by (simp add: extractall_def)
  then have "map sr_args (map fst (spawned (snd (extract_and_install_toolchain pf lg ?tp ?ms ''/opt/out'' s)))) =
      map sr_args (map fst (spawned s)) @
        [ArgsList (map Str (py_split (installer_command ?i ''/opt/out'')))]"
    by simp
  then have d: "map (sr_args \<circ> fst)
     (spawned (snd (extract_and_install_toolchain pf lg ?tp ?ms ''/opt/out'' s))) =
     map (sr_args \<circ> fst) (spawned s) @
       [ArgsList (map Str [''/opt/tc/notes.shop.txt'', ''-d'', ''/opt/out'', ''-y''])]"
    by (simp add: cmd)
  from a b c d show ?thesis by blast
qed

theorem installer_is_substring_match_witness:
  "map (sr_args \<circ> fst)
     (spawned (snd (extract_and_install_toolchain example_platform quiet_logger
                      (parse_path ''/opt/tc/toolchain.tar.gz'')
                      [\<lparr>name = ''notes.shop.txt'', content = ''milk''\<rparr>] ''/opt/out'' start_state))) =
   [ArgsList (map Str [''/opt/tc/notes.shop.txt'', ''-d'', ''/opt/out'', ''-y''])]"
  using installer_is_substring_match [of "parse_path ''/opt/tc/toolchain.tar.gz''" "[]" "''milk''"
      example_platform quiet_logger start_state]
  by (simp add: start_state_def)

text \<open>
  C9: when no member name of the archive contains \<open>.sh\<close>, the operation raises with
  nothing extracted: the files, the subprocesses started and the working directory are
  those on entry. The installers are looked for in the member list, before the archive is
  unpacked.
\<close>

theorem no_installer_leaves_files:
  "(\<forall>m \<in> set members. \<not> str_contains ''.sh'' (name m)) \<Longrightarrow>
   (\<exists>e. fst (extract_and_install_toolchain pf lg tar_path members dir_to_install_toolchain_in s) = Inl e) \<and>
   files (snd (extract_and_install_toolchain pf lg tar_path members dir_to_install_toolchain_in s)) = files s \<and>
   spawned (snd (extract_and_install_toolchain pf lg tar_path members dir_to_install_toolchain_in s)) = spawned s \<and>
   cwd (snd (extract_and_install_toolchain pf lg tar_path members dir_to_install_toolchain_in s)) = cwd s"
  by (simp add: extract_and_install_toolchain_def Let_def toolchain_installers_empty)

theorem no_installer_leaves_files_witness:
  "files (snd (extract_and_install_toolchain example_platform quiet_logger
                 (parse_path ''/opt/tc/toolchain.tar.gz'')
                 [\<lparr>name = ''../../etc/passwd'', content = ''root''\<rparr>, \<lparr>name = ''readme.txt'', content = ''hello''\<rparr>]
                 ''/opt/out'' start_state)) = [] \<and>
   spawned (snd (extract_and_install_toolchain example_platform quiet_logger
                 (parse_path ''/opt/tc/toolchain.tar.gz'')
                 [\<lparr>name = ''../../etc/passwd'', content = ''root''\<rparr>, \<lparr>name = ''readme.txt'', content = ''hello''\<rparr>]
                 ''/opt/out'' start_state)) = []"
proof -
  have h: "\<forall>m \<in> set [\<lparr>name = ''../../etc/passwd'', content = ''root''\<rparr>, \<lparr>name = ''readme.txt'', content = ''hello''\<rparr>].
             \<not> str_contains ''.sh'' (name m)"
    by (simp add: startswith_def)
  show ?thesis
    using no_installer_leaves_files [OF h, of example_platform quiet_logger
        "parse_path ''/opt/tc/toolchain.tar.gz''" "''/opt/out''" start_state]
    by (simp add: start_state_def)
qed

text \<open>
  C8, as stated, fails: a wrapped operation that removes the directory current on entry
  makes the \<open>os.chdir\<close> of the \<open>finally\<close> clause raise, and the process stays in the
  target directory.
\<close>

theorem working_directory_counterexample:
  "cwd start_state = ''/home/build'' \<and>
   fst (working_directory ''/opt/tc'' remove_entry_directory start_state) = Inl (OSError ''/home/build'') \<and>
   cwd (snd (working_directory ''/opt/tc'' remove_entry_directory start_state)) = ''/opt/tc''"
proof -
  let ?s1 = "start_state\<lparr>cwd := ''/opt/tc''\<rparr>"
  let ?s2 = "start_state\<lparr>cwd := ''/opt/tc'', dirs := removeAll ''/home/build'' (dirs start_state)\<rparr>"
  have c: "cwd start_state = ''/home/build''" by (simp add: start_state_def)
  have a1: "abspath wd ''/opt/tc'' = ''/opt/tc''" for wd
    by (simp add: abspath_def isabs_def startswith_def normpath_def)
  have a2: "abspath wd ''/home/build'' = ''/home/build''" for wd
    by (simp add: abspath_def isabs_def startswith_def normpath_def)
  have e1: "os_chdir ''/opt/tc'' start_state = (Inr (), ?s1)"
    by (simp add: os_chdir_def Let_def a1) (simp add: start_state_def)
  have e2: "remove_entry_directory ''/opt/tc'' ?s1 = (Inr (), ?s2)"
    by (simp add: remove_entry_directory_def)
  have e3: "os_chdir ''/home/build'' ?s2 = (Inl (OSError ''/home/build''), ?s2)"
    by (simp add: os_chdir_def Let_def a2 start_state_def)
  have "working_directory ''/opt/tc'' remove_entry_directory start_state =
        (Inl (OSError ''/home/build''), ?s2)"
    by (simp add: working_directory_def c e1 e2 e3)
  then show ?thesis by (simp add: c)
qed

text \<open>
  C8, amended: for every target directory and every wrapped operation, when the directory
  current on entry can still be entered when the scope ends (it exists on entry, and it
  exists after the wrapped operation when the target was entered), the working directory
  after \<open>with working_directory(...)\<close> is the one on entry, whether the wrapped operation
  returns or raises and also when the target cannot be entered. The directory on entry
  is what \<open>os.getcwd()\<close> returns: an absolute, normalised path.
\<close>

theorem working_directory_restores:
  assumes "isabs (cwd s)" and "normpath (cwd s) = cwd s"
    and "cwd s \<in> set (dirs s)"
    and "abspath (cwd s) target_directory \<in> set (dirs s) \<longrightarrow>
         cwd s \<in> set (dirs (snd (body target_directory (s\<lparr>cwd := abspath (cwd s) target_directory\<rparr>))))"
  shows "cwd (snd (working_directory target_directory body s)) = cwd s"
proof -
  have restore: "os_chdir (cwd s) st = (Inr (), st\<lparr>cwd := cwd s\<rparr>)" if "cwd s \<in> set (dirs st)" for st
    using assms(1,2) that by (rule os_chdir_back)
  show ?thesis
  proof (cases "abspath (cwd s) target_directory \<in> set (dirs s)")
    case False
    then have "os_chdir target_directory s = (Inl (OSError target_directory), s)"
      by (simp add: os_chdir_def Let_def)
    then show ?thesis
      by (simp add: working_directory_def restore [OF assms(3)])
  next
    case True
    let ?s1 = "s\<lparr>cwd := abspath (cwd s) target_directory\<rparr>"
    from True have e: "os_chdir target_directory s = (Inr (), ?s1)"
      by (simp add: os_chdir_def Let_def)
    obtain r2 s2 where b: "body target_directory ?s1 = (r2, s2)"
      by (cases "body target_directory ?s1")
    with True assms(4) have "cwd s \<in> set (dirs s2)" by simp
    from restore [OF this] e b show ?thesis
      by (simp add: working_directory_def)
  qed
qed

theorem working_directory_restores_witness:
  "isabs (cwd start_state) \<and> normpath (cwd start_state) = cwd start_state \<and>
   cwd start_state \<in> set (dirs start_state) \<and>
   fst (build_step ''/opt/tc'' start_state) =
     Inl (CalledProcessError 2 (ArgsList [Str ''make'']) [] ''boom'') \<and>
   cwd (snd (working_directory ''/opt/tc'' build_step start_state)) = ''/home/build''"
proof -
  have c: "cwd start_state = ''/home/build''" by (simp add: start_state_def)
  have h1: "isabs (cwd start_state)" by (simp add: c isabs_def startswith_def)
  have h2: "normpath (cwd start_state) = cwd start_state"
    by (simp add: c normpath_def startswith_def)
  have h3: "cwd start_state \<in> set (dirs start_state)" by (simp add: start_state_def)
  have h4: "abspath (cwd start_state) ''/opt/tc'' \<in> set (dirs start_state) \<longrightarrow>
         cwd start_state \<in> set (dirs (snd (build_step ''/opt/tc''
            (start_state\<lparr>cwd := abspath (cwd start_state) ''/opt/tc''\<rparr>))))"
    using h3 by (simp add: build_step_dirs)
  show ?thesis
    using h1 h2 h3 build_step_raises
      working_directory_restores [of start_state "''/opt/tc''" build_step, OF h1 h2 h3 h4]
    by (simp add: c)
qed

text \<open>
  C2, as stated, fails for \<open>ShellRunner.run\<close>: with \<open>PATH\<close> set in the environment of
  the process and \<open>env={'LANG': 'C'}\<close>, the child of \<open>run\<close> has no \<open>PATH\<close>.
\<close>

theorem run_env_counterexample:
  "map_of (environ example_platform) ''PATH'' = Some ''/usr/bin'' \<and>
   map_of [(''LANG'', ''C'')] ''PATH'' = None \<and>
   map_of (child_environment example_platform
             (fst (last (spawned (snd (run example_platform quiet_logger (CmdList [Str ''ls''])
                                         (Some [(''LANG'', ''C'')]) False None False None start_state))))))
          ''PATH'' = None"
  by (simp add: run_spawned child_environment_def run_request_def example_platform_def)

text \<open>
  C2, amended: \<open>ShellRunner.run\<close> hands \<open>env\<close> to the child as it is given, with
  nothing of the environment of the process merged in, and the child inherits that
  environment when \<open>env\<close> is \<open>None\<close>. The merge is what \<open>run_subprocess\<close> does with
  \<open>update_env\<close>: each of its keys takes the override, every other key keeps the value
  of \<open>os.environ\<close>.
\<close>

theorem run_env_passed_unmerged:
  assumes "distinct (map fst update_env)"
  shows
   "child_environment pf
      (fst (last (spawned (snd (run pf lg shell_cmd (Some env_arg) ignore_errors timeout shell cwd_arg s))))) =
      env_arg \<and>
    child_environment pf
      (fst (last (spawned (snd (run pf lg shell_cmd None ignore_errors timeout shell cwd_arg s))))) =
      environ pf \<and>
    map_of (child_environment pf
      (fst (last (spawned (snd (run_subprocess pf lg command_line check_output cwd_arg shell
                                  (Some update_env) s'))))))
      k = (case map_of update_env k of Some v \<Rightarrow> Some v | None \<Rightarrow> map_of (environ pf) k)"
  using map_of_update_loop [OF assms, of "environ pf" k]
  by (simp add: run_spawned run_subprocess_spawned child_environment_def run_request_def
      subprocess_request_def Let_def)

theorem run_env_passed_unmerged_witness:
  "distinct (map fst [(''LANG'', ''C'')]) \<and>
   child_environment example_platform
      (fst (last (spawned (snd (run example_platform quiet_logger (CmdList [Str ''ls''])
                                  (Some [(''LANG'', ''C'')]) False None False None start_state))))) =
      [(''LANG'', ''C'')] \<and>
   map_of (child_environment example_platform
      (fst (last (spawned (snd (run_subprocess example_platform quiet_logger ''ls'' True None False
                                  (Some [(''LANG'', ''C'')]) start_state))))))
      ''PATH'' = Some ''/usr/bin'' \<and>
   map_of (child_environment example_platform
      (fst (last (spawned (snd (run_subprocess example_platform quiet_logger ''ls'' True None False
                                  (Some [(''LANG'', ''C'')]) start_state))))))
      ''LANG'' = Some ''C''"
proof -
  have h: "distinct (map fst [(''LANG'', ''C'')])" by simp
  have e: "map_of (environ example_platform) ''PATH'' = Some ''/usr/bin''"
    by (simp add: example_platform_def)
  show ?thesis
    using h e
      run_env_passed_unmerged [OF h, of example_platform quiet_logger "CmdList [Str ''ls'']"
        "[(''LANG'', ''C'')]" False None False None start_state "''ls''" True start_state "''PATH''"]
      run_env_passed_unmerged [OF h, of example_platform quiet_logger "CmdList [Str ''ls'']"
        "[(''LANG'', ''C'')]" False None False None start_state "''ls''" True start_state "''LANG''"]
    by simp
qed

text \<open>
  C4, as stated, fails: a command that exits with 0 and prints a byte that is not UTF-8
  makes \<open>run\<close> raise \<open>UnicodeDecodeError\<close>, with \<open>ignore_errors\<close> true or false.
\<close>

theorem run_decode_counterexample:
  "map snd (spawned (snd (run binary_platform quiet_logger (CmdList [Str ''cat'', Str ''blob''])
                            None True None False None start_state))) = [Inr (0, [CHR 0xFF], [])] \<and>
   fst (run binary_platform quiet_logger (CmdList [Str ''cat'', Str ''blob''])
          None True None False None start_state) = Inl UnicodeDecodeError \<and>
   fst (run binary_platform quiet_logger (CmdList [Str ''cat'', Str ''blob''])
          None False None False None start_state) = Inl UnicodeDecodeError"
proof -
  have d: "decode [CHR 0xFF] = None" by (simp add: decode_def byte_def)
  show ?thesis
    by (simp add: run_spawned start_state_def) (simp add: run_def start_process_def binary_platform_def d)
qed

text \<open>
  C4, amended: when the command runs to an exit code, its standard output and standard
  error decode as UTF-8 and the logger takes the log entry, \<open>run\<close> raises exactly when
  the exit code is not 0 and \<open>ignore_errors\<close> is false, and then it raises
  \<open>CalledProcessError\<close> with the exit code, the command and the decoded output; in every
  other case it returns the result with that exit code.
\<close>

theorem run_raises_iff_nonzero_unsuppressed:
  assumes "run_process pf s (run_request shell_cmd env_arg timeout shell cwd_arg) = Inr (rc, out, err)"
    and "decode out = Some out'" and "decode err = Some err'"
    and "fst (log_subprocess lg
           \<lparr>cp_args = convert_cmd shell_cmd, returncode = rc, stdout = out', stderr = err'\<rparr>
           (snd (start_process pf (run_request shell_cmd env_arg timeout shell cwd_arg) s))) = Inr ()"
  shows
   "fst (run pf lg shell_cmd env_arg ignore_errors timeout shell cwd_arg s) =
      (if rc \<noteq> 0 \<and> \<not> ignore_errors
       then Inl (CalledProcessError rc (convert_cmd shell_cmd) out' err')
       else Inr \<lparr>cp_args = convert_cmd shell_cmd, returncode = rc, stdout = out', stderr = err'\<rparr>) \<and>
    ((\<exists>e. fst (run pf lg shell_cmd env_arg ignore_errors timeout shell cwd_arg s) = Inl e) \<longleftrightarrow>
       rc \<noteq> 0 \<and> \<not> ignore_errors)"
proof -
  let ?req = "run_request shell_cmd env_arg timeout shell cwd_arg"
  let ?p = "\<lparr>cp_args = convert_cmd shell_cmd, returncode = rc, stdout = out', stderr = err'\<rparr>"
  obtain s1 where sp: "start_process pf ?req s = (Inr (rc, out, err), s1)"
    using assms(1) by (simp add: start_process_def)
  then have "fst (log_subprocess lg ?p s1) = Inr ()"
    using assms(4) by simp
  then obtain s2 where lg: "log_subprocess lg ?p s1 = (Inr (), s2)"
    by (cases "log_subprocess lg ?p s1") auto
  show ?thesis
    by (simp add: run_def Let_def sp assms(2,3) lg)
qed

theorem run_raises_iff_nonzero_unsuppressed_witness:
  "fst (run failing_platform quiet_logger (CmdList [Str ''make'']) None False None False None start_state) =
     Inl (CalledProcessError 2 (ArgsList [Str ''make'']) [] ''boom'') \<and>
   fst (run failing_platform quiet_logger (CmdList [Str ''make'']) None True None False None start_state) =
     Inr \<lparr>cp_args = ArgsList [Str ''make''], returncode = 2, stdout = [], stderr = ''boom''\<rparr>"
proof -
  let ?req = "run_request (CmdList [Str ''make'']) None None False None"
  have h1: "run_process failing_platform start_state ?req = Inr (2, [], ''boom'')"
    by (simp add: failing_platform_def)
  have h2: "decode [] = Some []" and h3: "decode ''boom'' = Some ''boom''"
    using decode_boom by simp_all
  have h4: "fst (log_subprocess quiet_logger
           \<lparr>cp_args = convert_cmd (CmdList [Str ''make'']), returncode = 2, stdout = [], stderr = ''boom''\<rparr>
           (snd (start_process failing_platform ?req start_state))) = Inr ()"
    by (rule quiet_logger_takes_entry)
  have c: "convert_cmd (CmdList [Str ''make'']) = ArgsList [Str ''make'']"
    by (rule convert_make)
  show ?thesis
    using run_raises_iff_nonzero_unsuppressed [OF h1 h2 h3 h4, of False]
      run_raises_iff_nonzero_unsuppressed [OF h1 h2 h3 h4, of True]
    by (simp add: c)
qed

text \<open>
  C3: \<open>ShellRunner._log_subprocess\<close> has no guard around the logger. With a logger that
  raises on a message it cannot encode and a command that exits with 0 and prints
  the two bytes of U+00E9, \<open>run\<close> raises the logger's exception. \<open>run_subprocess\<close> on the same command
  returns, and the two fallback lines are logged.
\<close>

theorem log_failure_propagates_from_run:
  "fst (run accent_platform ascii_logger (CmdList [Str ''cat'', Str ''menu'']) None False None False None
          start_state) = Inl LoggerError \<and>
   fst (run_subprocess accent_platform ascii_logger ''cat menu'' True None False None start_state) = Inr () \<and>
   map fst (log (snd (run_subprocess accent_platform ascii_logger ''cat menu'' True None False None
                        start_state))) = [WARNING, DEBUG]"
proof -
  have d1: "decode [CHR 0xC3, CHR 0xA9] = Some [CHR 0xC3, CHR 0xA9]"
    by (simp add: decode_def byte_def cont_def)
  have d2: "decode [] = Some []" by (simp add: decode_def)
  have l1: "log_subprocess ascii_logger
              \<lparr>cp_args = ca, returncode = 0, stdout = [CHR 0xC3, CHR 0xA9], stderr = []\<rparr> st =
            (Inl LoggerError, st)" for ca st
    by (simp add: log_subprocess_def log_entry_def Let_def ascii_logger_def byte_def)
  have a: "fst (run accent_platform ascii_logger (CmdList [Str ''cat'', Str ''menu'']) None False None False None
          start_state) = Inl LoggerError"
    by (simp add: run_def Let_def start_process_def accent_platform_def d1 d2 l1)
  have e: "log_entry ascii_logger lvl msg st = (Inl LoggerError, st)"
    if "list_ex (\<lambda>c. 128 \<le> byte c) msg" for lvl msg st
    using that by (simp add: log_entry_def ascii_logger_def)
  have c: "\<exists>m. check_subprocess_output ascii_logger
             \<lparr>cp_args = ca, returncode = 0, stdout = [CHR 0xC3, CHR 0xA9], stderr = []\<rparr> st =
             fallback ascii_logger WARNING DEBUG m st" for ca st
    by (simp add: check_subprocess_output_def Let_def d1 d2 e byte_def) blast
  have b: "run_subprocess accent_platform ascii_logger ''cat menu'' True None False None start_state =
      check_subprocess_output ascii_logger
             \<lparr>cp_args = sr_args (subprocess_request accent_platform ''cat menu'' None False None),
                returncode = 0, stdout = [CHR 0xC3, CHR 0xA9], stderr = []\<rparr>
          (snd (start_process accent_platform
                               (subprocess_request accent_platform ''cat menu'' None False None) start_state))"
    unfolding run_subprocess_def Let_def
    by (simp add: start_process_def accent_platform_def)
  have ls: "log start_state = []" by (simp add: start_state_def)
  from c obtain m where
    "run_subprocess accent_platform ascii_logger ''cat menu'' True None False None start_state =
     fallback ascii_logger WARNING DEBUG m
       (snd (start_process accent_platform
               (subprocess_request accent_platform ''cat menu'' None False None) start_state))"
    unfolding b by blast
  then show ?thesis
    using ascii_logger_fallback [of WARNING DEBUG m] by (simp add: a ls)
qed

text \<open>
  C1, as stated, fails: the archive whose only member is \<open>../../etc/passwd\<close> resolves
  outside \<open>/opt/tc\<close>, and the operation raises \<open>FileNotFoundError\<close>, since the installers
  are looked for before the members are checked.
\<close>

theorem traversal_without_installer_counterexample:
  "abspath (cwd start_state)
     (os_path_join (dirname (path_str (parse_path ''/opt/tc/toolchain.tar.gz''))) ''../../etc/passwd'') =
     ''/etc/passwd'' \<and>
   abspath (cwd start_state) (dirname (path_str (parse_path ''/opt/tc/toolchain.tar.gz''))) = ''/opt/tc'' \<and>
   fst (extract_and_install_toolchain example_platform quiet_logger (parse_path ''/opt/tc/toolchain.tar.gz'')
          [\<lparr>name = ''../../etc/passwd'', content = ''root''\<rparr>] ''/opt/out'' start_state) =
     Inl (FileNotFoundError ''No toolchain installer found'')"
proof -
  have dn: "dirname (path_str (parse_path ''/opt/tc/toolchain.tar.gz'')) = ''/opt/tc''"
    by (simp add: parse_path_def startswith_def dirname_def)
  have j: "os_path_join ''/opt/tc'' ''../../etc/passwd'' = ''/opt/tc/../../etc/passwd''"
    by (simp add: os_path_join_def startswith_def endswith_def)
  have a1: "abspath wd ''/opt/tc/../../etc/passwd'' = ''/etc/passwd''" for wd
    by (simp add: abspath_def isabs_def startswith_def normpath_def)
  have a2: "abspath wd ''/opt/tc'' = ''/opt/tc''" for wd
    by (simp add: abspath_def isabs_def startswith_def normpath_def)
  have ti: "toolchain_installers tp [\<lparr>name = ''../../etc/passwd'', content = ''root''\<rparr>] = []" for tp
    by (simp add: toolchain_installers_def startswith_def)
  show ?thesis
    by (simp add: dn j a1 a2 extract_and_install_toolchain_def ti)
qed

text \<open>
  C1, amended: when the absolute path of some member, joined to the directory of the
  archive, does not begin with the absolute path of that directory, the operation raises
  and extracts nothing: no file is written and no subprocess is started. The exception is
  the path-traversal \<open>Exception\<close> when some member name contains \<open>.sh\<close>, and
  \<open>FileNotFoundError\<close> when none does.
\<close>

theorem traversal_extracts_nothing:
  assumes "\<exists>m \<in> set members.
             \<not> startswith (abspath (cwd s) (os_path_join (dirname (path_str tar_path)) (name m)))
                           (abspath (cwd s) (dirname (path_str tar_path)))"
  shows
   "fst (extract_and_install_toolchain pf lg tar_path members dir_to_install_toolchain_in s) =
      (if toolchain_installers tar_path members = []
       then Inl (FileNotFoundError ''No toolchain installer found'')
       else Inl (Exception ''Attempted Path Traversal in Tar File'')) \<and>
    files (snd (extract_and_install_toolchain pf lg tar_path members dir_to_install_toolchain_in s)) = files s \<and>
    spawned (snd (extract_and_install_toolchain pf lg tar_path members dir_to_install_toolchain_in s)) = spawned s"
proof -
  let ?dir = "dirname (path_str tar_path)"
  let ?s1 = "log_line INFO ''extracting toolchain'' s"
  from assms obtain e where "check_members (cwd s) ?dir members = Inl e"
    using check_members_fails_iff [of "cwd s" ?dir members] by blast
  then have "check_members (cwd ?s1) ?dir members = Inl (Exception ''Attempted Path Traversal in Tar File'')"
    using check_members_Inl by fastforce
  then have "safe_extract members ?dir ?s1 = (Inl (Exception ''Attempted Path Traversal in Tar File''), ?s1)"
    by (simp add: safe_extract_def)
  then show ?thesis
    by (simp add: extract_and_install_toolchain_def Let_def)
qed

theorem traversal_extracts_nothing_witness:
  "fst (extract_and_install_toolchain example_platform quiet_logger (parse_path ''/opt/tc/toolchain.tar.gz'')
          [\<lparr>name = ''install.sh'', content = ''#!/bin/sh''\<rparr>, \<lparr>name = ''../../etc/passwd'', content = ''root''\<rparr>]
          ''/opt/out'' start_state) = Inl (Exception ''Attempted Path Traversal in Tar File'') \<and>
   files (snd (extract_and_install_toolchain example_platform quiet_logger (parse_path ''/opt/tc/toolchain.tar.gz'')
          [\<lparr>name = ''install.sh'', content = ''#!/bin/sh''\<rparr>, \<lparr>name = ''../../etc/passwd'', content = ''root''\<rparr>]
          ''/opt/out'' start_state)) = []"
proof -
  let ?ms = "[\<lparr>name = ''install.sh'', content = ''#!/bin/sh''\<rparr>, \<lparr>name = ''../../etc/passwd'', content = ''root''\<rparr>]"
  let ?tp = "parse_path ''/opt/tc/toolchain.tar.gz''"
  have dn: "dirname (path_str ?tp) = ''/opt/tc''"
    by (simp add: parse_path_def startswith_def dirname_def)
  have j: "os_path_join ''/opt/tc'' ''../../etc/passwd'' = ''/opt/tc/../../etc/passwd''"
    by (simp add: os_path_join_def startswith_def endswith_def)
  have a1: "abspath wd ''/opt/tc/../../etc/passwd'' = ''/etc/passwd''" for wd
    by (simp add: abspath_def isabs_def startswith_def normpath_def)
  have a2: "abspath wd ''/opt/tc'' = ''/opt/tc''" for wd
    by (simp add: abspath_def isabs_def startswith_def normpath_def)
  have ns: "\<not> startswith ''/etc/passwd'' ''/opt/tc''" by (simp add: startswith_def)
  have h: "\<exists>m \<in> set ?ms.
             \<not> startswith (abspath (cwd start_state) (os_path_join (dirname (path_str ?tp)) (name m)))
                           (abspath (cwd start_state) (dirname (path_str ?tp)))"
    by (simp add: dn j a1 a2 ns)
  have ti: "toolchain_installers ?tp ?ms \<noteq> []"
    by (simp add: toolchain_installers_def startswith_def)
  have f: "files start_state = []" by (simp add: start_state_def)
  show ?thesis
    using traversal_extracts_nothing [OF h, of example_platform quiet_logger "''/opt/out''"] ti f
    by simp
qed




end
